theory Spec2Isabelle
  imports Complex_Main
begin

section \<open>The financial data processor: a batch pipeline over an external table engine\<close>

text \<open>
  The program is one script, \<^verbatim>\<open>financial_data_processor.py\<close>: it acquires a compute
  session, reads a CSV file into a table, drops the rows that miss a critical field, casts
  three columns, fills the missing currencies, removes duplicate transaction ids, writes the
  table in overwrite mode, reads it back and stops the session.

  The table operators themselves (\<^verbatim>\<open>dropna\<close>, \<^verbatim>\<open>cast\<close>, \<^verbatim>\<open>fillna\<close>,
  \<^verbatim>\<open>dropDuplicates\<close>) belong to the engine. Their row-level meaning is fixed here; what
  the engine decides type by type and value by value (which column types it accepts in a
  cast, whether a value coerces to a type, whether it is NaN, how a string literal is
  represented) is an \<open>engine\<close> parameter, so that every theorem below holds for whatever
  the engine answers.
\<close>

subsection \<open>Values, rows and tables\<close>

text \<open>
  A cell is either SQL NULL (\<open>None\<close>) or a value of the engine. A row gives a cell for
  every column name. A table lists its column names, the type that schema inference gave
  each column, and its rows, in processing order.
\<close>

type_synonym 'v cell = "'v option"

type_synonym 'v row = "string \<Rightarrow> 'v cell"

datatype ftype = IntegerT | LongT | DoubleT | StringT | DateT | TimestampT | BooleanT

record 'v table =
  columns :: "string list"
  dtypes :: "string \<Rightarrow> ftype"
  rows :: "'v row list"

text \<open>The three cast targets of the script, and the column type each of them gives.\<close>

datatype dtype = DoubleType | DateType | IntegerType

fun cast_type :: "dtype \<Rightarrow> ftype" where
  "cast_type DoubleType = DoubleT"
| "cast_type DateType = DateT"
| "cast_type IntegerType = IntegerT"

text \<open>
  \<open>castable from ty\<close> says that the engine accepts a cast of a column of type \<open>from\<close>
  to \<open>ty\<close>; a cast it does not accept is an error when the plan is analysed, before any
  row is read. \<open>cast ty v = None\<close> says that the value \<open>v\<close> cannot be coerced to
  \<open>ty\<close>; with the engine's default cast semantics the cell then becomes NULL.
\<close>

record 'v engine =
  cast :: "dtype \<Rightarrow> 'v \<Rightarrow> 'v option"
  castable :: "ftype \<Rightarrow> dtype \<Rightarrow> bool"
  is_nan :: "'v \<Rightarrow> bool"
  lit :: "string \<Rightarrow> 'v"

text \<open>
  The two analysis errors are both \<^verbatim>\<open>AnalysisException\<close> in Python: a column name that
  does not resolve, and a cast between incompatible types (\<open>TypeMismatch\<close>, with the name
  of the column).
\<close>

datatype error = AnalysisException string | TypeMismatch string | EngineError string

fun message :: "error \<Rightarrow> string" where
  "message (AnalysisException c) = ''cannot resolve column '' @ c"
| "message (TypeMismatch c) = ''cannot cast column '' @ c"
| "message (EngineError m) = m"

subsection \<open>Engine operators used by the script\<close>

text \<open>A column name that the table does not have is an analysis error of the engine.\<close>

definition resolve :: "'v table \<Rightarrow> string list \<Rightarrow> error option" where
  "resolve t cs =
     (case filter (\<lambda>c. c \<notin> set (columns t)) cs of
        [] \<Rightarrow> None
      | c # _ \<Rightarrow> Some (AnalysisException c))"

definition and_then :: "error + 'a \<Rightarrow> ('a \<Rightarrow> error + 'b) \<Rightarrow> error + 'b" where
  "and_then r f = (case r of Inl e \<Rightarrow> Inl e | Inr x \<Rightarrow> f x)"

text \<open>\<^verbatim>\<open>df.dropna(subset=...)\<close>: a row is dropped when one of the named cells is NULL or NaN.\<close>

definition missing :: "'v engine \<Rightarrow> 'v cell \<Rightarrow> bool" where
  "missing eng c = (case c of None \<Rightarrow> True | Some v \<Rightarrow> is_nan eng v)"

definition dropna :: "'v engine \<Rightarrow> string list \<Rightarrow> 'v table \<Rightarrow> error + 'v table" where
  "dropna eng cs t =
     (case resolve t cs of
        Some e \<Rightarrow> Inl e
      | None \<Rightarrow> Inr (t\<lparr>rows := filter (\<lambda>r. \<forall>c \<in> set cs. \<not> missing eng (r c)) (rows t)\<rparr>))"

text \<open>Column expressions: \<^verbatim>\<open>col(name)\<close> and \<^verbatim>\<open>.cast(type)\<close>.\<close>

datatype colexpr = Col string | Cast colexpr dtype

fun refs :: "colexpr \<Rightarrow> string list" where
  "refs (Col c) = [c]"
| "refs (Cast e ty) = refs e"

definition cast_cell :: "'v engine \<Rightarrow> dtype \<Rightarrow> 'v cell \<Rightarrow> 'v cell" where
  "cast_cell eng ty c = (case c of None \<Rightarrow> None | Some v \<Rightarrow> cast eng ty v)"

fun eval_col :: "'v engine \<Rightarrow> colexpr \<Rightarrow> 'v row \<Rightarrow> 'v cell" where
  "eval_col eng (Col c) r = r c"
| "eval_col eng (Cast e ty) r = cast_cell eng ty (eval_col eng e r)"

text \<open>
  Analysis of a column expression: its columns must resolve, and every cast in it must be
  one the engine accepts for the type of its argument.
\<close>

fun type_of :: "'v table \<Rightarrow> colexpr \<Rightarrow> ftype" where
  "type_of t (Col c) = dtypes t c"
| "type_of t (Cast e ty) = cast_type ty"

fun analyse :: "'v engine \<Rightarrow> 'v table \<Rightarrow> colexpr \<Rightarrow> error option" where
  "analyse eng t (Col c) = resolve t [c]"
| "analyse eng t (Cast e ty) =
     (case analyse eng t e of
        Some err \<Rightarrow> Some err
      | None \<Rightarrow>
          if castable eng (type_of t e) ty then None
          else Some (TypeMismatch (concat (refs e))))"

text \<open>
  \<^verbatim>\<open>df.withColumn(name, expr)\<close> replaces the column, or appends it when it is new; the
  column takes the type of the expression.
\<close>

definition withColumn :: "'v engine \<Rightarrow> string \<Rightarrow> colexpr \<Rightarrow> 'v table \<Rightarrow> error + 'v table" where
  "withColumn eng name e t =
     (case analyse eng t e of
        Some err \<Rightarrow> Inl err
      | None \<Rightarrow>
          Inr \<lparr>columns = (if name \<in> set (columns t) then columns t else columns t @ [name]),
               dtypes = (dtypes t)(name := type_of t e),
               rows = map (\<lambda>r. r(name := eval_col eng e r)) (rows t)\<rparr>)"

text \<open>
  \<^verbatim>\<open>df.fillna({column: literal, ...})\<close> with string literals: the literal is written
  into the NULL cells of a named column when that column is a string column. A named column
  of another type is left as it is.
\<close>

fun fill_row :: "'v engine \<Rightarrow> (string \<Rightarrow> ftype) \<Rightarrow> (string \<times> string) list \<Rightarrow> 'v row \<Rightarrow> 'v row" where
  "fill_row eng tys [] r = r"
| "fill_row eng tys ((c, s) # vs) r =
     fill_row eng tys vs
       (if tys c = StringT \<and> r c = None then r(c := Some (lit eng s)) else r)"

definition fillna :: "'v engine \<Rightarrow> (string \<times> string) list \<Rightarrow> 'v table \<Rightarrow> error + 'v table" where
  "fillna eng vs t =
     (case resolve t (map fst vs) of
        Some e \<Rightarrow> Inl e
      | None \<Rightarrow> Inr (t\<lparr>rows := map (fill_row eng (dtypes t) vs) (rows t)\<rparr>))"

text \<open>
  \<^verbatim>\<open>df.dropDuplicates(subset)\<close>: rows are taken in processing order and a row is kept
  when its key has not been seen yet. The key is the list of the named cells; NULL equals
  NULL here, as in grouping.
\<close>

fun keep_first :: "('a \<Rightarrow> 'k) \<Rightarrow> 'k list \<Rightarrow> 'a list \<Rightarrow> 'a list" where
  "keep_first key seen [] = []"
| "keep_first key seen (r # rs) =
     (if key r \<in> set seen then keep_first key seen rs
      else r # keep_first key (key r # seen) rs)"

definition dropDuplicates :: "string list \<Rightarrow> 'v table \<Rightarrow> error + 'v table" where
  "dropDuplicates cs t =
     (case resolve t cs of
        Some e \<Rightarrow> Inl e
      | None \<Rightarrow> Inr (t\<lparr>rows := keep_first (\<lambda>r. map r cs) [] (rows t)\<rparr>))"

subsection \<open>The transformation section of the script\<close>

text \<open>
  Each definition is one assignment of the script: \<open>cleaned_df\<close> (the null-filter),
  \<open>cast_df\<close> (the first \<^verbatim>\<open>transformed_df\<close>, the chain of three casts),
  \<open>transformed_df\<close> (after the default-fill) and \<open>final_df\<close> (after deduplication).
\<close>

definition cleaned_df :: "'v engine \<Rightarrow> 'v table \<Rightarrow> error + 'v table" where
  "cleaned_df eng df = dropna eng [''transaction_id'', ''amount''] df"

definition cast_df :: "'v engine \<Rightarrow> 'v table \<Rightarrow> error + 'v table" where
  "cast_df eng df =
     and_then (cleaned_df eng df) (\<lambda>t.
     and_then (withColumn eng ''amount'' (Cast (Col ''amount'') DoubleType) t) (\<lambda>t.
     and_then (withColumn eng ''date'' (Cast (Col ''date'') DateType) t) (\<lambda>t.
       withColumn eng ''transaction_id'' (Cast (Col ''transaction_id'') IntegerType) t)))"

definition transformed_df :: "'v engine \<Rightarrow> 'v table \<Rightarrow> error + 'v table" where
  "transformed_df eng df =
     and_then (cast_df eng df) (fillna eng [(''currency'', ''UNKNOWN'')])"

definition final_df :: "'v engine \<Rightarrow> 'v table \<Rightarrow> error + 'v table" where
  "final_df eng df =
     and_then (transformed_df eng df) (dropDuplicates [''transaction_id''])"

text \<open>
  Row by row: \<open>passes\<close> is the test of the null-filter, \<open>cast_row\<close> what the three
  casts make of a record, and \<open>out_row\<close> what the default-fill then makes of it in a
  table with the column types of \<open>df\<close>. They abbreviate the row functions of the
  operators above.
\<close>

abbreviation passes :: "'v engine \<Rightarrow> 'v row \<Rightarrow> bool" where
  "passes eng r \<equiv>
     \<not> missing eng (r ''transaction_id'') \<and> \<not> missing eng (r ''amount'')"

abbreviation cast_row :: "'v engine \<Rightarrow> 'v row \<Rightarrow> 'v row" where
  "cast_row eng r \<equiv>
     r(''amount'' := cast_cell eng DoubleType (r ''amount''),
       ''date'' := cast_cell eng DateType (r ''date''),
       ''transaction_id'' := cast_cell eng IntegerType (r ''transaction_id''))"

abbreviation out_row :: "'v engine \<Rightarrow> 'v table \<Rightarrow> 'v row \<Rightarrow> 'v row" where
  "out_row eng df r \<equiv>
     fill_row eng (dtypes df) [(''currency'', ''UNKNOWN'')] (cast_row eng r)"

subsection \<open>The script as a whole\<close>

text \<open>
  What the process can observe of its surroundings is a \<open>world\<close>: the text on standard
  output, whether the compute session is live and how often it has been stopped, and the
  versioned store (for every location, its versions, the current one first).
  What the engine answers to the effectful calls of one run is an \<open>env\<close>: the outcome of
  reading the CSV file, and whether each later action raises. Every engine failure is an
  \<^verbatim>\<open>Exception\<close> of Python, which the script's \<^verbatim>\<open>except Exception\<close> clauses catch.
  The table that \<open>read_csv\<close> gives has its rows in the order in which the engine
  processes them in this run: the specification (sections 4.3 and 9) leaves that order to
  the engine, so two runs over one file may be given the same records in different orders.
\<close>

datatype 'v printed = Line string | Schema "string list" | Rows "'v row list"

record 'v world =
  out :: "'v printed list"
  active :: bool
  stops :: nat
  store :: "string \<Rightarrow> 'v table list"

record 'v env =
  read_csv :: "error + 'v table"
  show_df :: "error option"
  show_final :: "error option"
  write_delta :: "error option"
  load_delta :: "error option"

datatype exit = Completed | SystemExit | Uncaught error

definition csv_input_path :: string where
  "csv_input_path = ''mock_transactions.csv''"

definition delta_output_path :: string where
  "delta_output_path = ''processed_financial_data_delta''"

definition print_line :: "string \<Rightarrow> 'v world \<Rightarrow> 'v world" where
  "print_line s w = w\<lparr>out := out w @ [Line s]\<rparr>"

definition printSchema :: "'v table \<Rightarrow> 'v world \<Rightarrow> 'v world" where
  "printSchema t w = w\<lparr>out := out w @ [Schema (columns t)]\<rparr>"

definition show_rows :: "nat \<Rightarrow> 'v table \<Rightarrow> 'v world \<Rightarrow> 'v world" where
  "show_rows n t w = w\<lparr>out := out w @ [Rows (take n (rows t))]\<rparr>"

definition getOrCreate :: "'v world \<Rightarrow> 'v world" where
  "getOrCreate w = w\<lparr>active := True\<rparr>"

definition stop :: "'v world \<Rightarrow> 'v world" where
  "stop w = w\<lparr>active := False, stops := stops w + 1\<rparr>"

text \<open>
  Modelled from the spec: the storage layer behind
  \<^verbatim>\<open>final_df.write.format("delta").mode("overwrite").save(path)\<close> is not part of the
  sources. By section 4.4 of the specification a successful write leaves the location with
  one current version, equal to the written table; by section 3 the earlier versions stay
  addressable. The location's versions are a list, the current one first.
\<close>

definition save_overwrite :: "string \<Rightarrow> 'v table \<Rightarrow> 'v world \<Rightarrow> 'v world" where
  "save_overwrite path t w = w\<lparr>store := (store w)(path := t # store w path)\<rparr>"

text \<open>
  Modelled from the spec: what \<^verbatim>\<open>spark.read.format("delta").load(path)\<close> reads is the
  current version of the location (section 4.4), if the location has one.
\<close>

definition current_version :: "'v world \<Rightarrow> string \<Rightarrow> 'v table option" where
  "current_version w path = (case store w path of [] \<Rightarrow> None | t # _ \<Rightarrow> Some t)"


text \<open>Section 3 of the script: the body of the first \<^verbatim>\<open>try\<close>.\<close>

definition ingest :: "'v env \<Rightarrow> 'v world \<Rightarrow> (error \<times> 'v world) + ('v table \<times> 'v world)" where
  "ingest env w =
     (case read_csv env of
        Inl e \<Rightarrow> Inl (e, w)
      | Inr df \<Rightarrow>
          (let w = print_line ''Data ingested successfully.'' w;
               w = printSchema df w
           in case show_df env of
                Some e \<Rightarrow> Inl (e, w)
              | None \<Rightarrow> Inr (df, show_rows 5 df w)))"

text \<open>Section 5: the write, inside its own \<^verbatim>\<open>try\<close>.\<close>

definition write_stage :: "'v env \<Rightarrow> 'v table \<Rightarrow> 'v world \<Rightarrow> 'v world" where
  "write_stage env t w =
     (let w = print_line (''Writing processed data to Delta Lake at '' @ delta_output_path @ ''...'') w
      in case write_delta env of
           Some e \<Rightarrow> print_line (''Error writing to Delta Lake: '' @ message e) w
         | None \<Rightarrow>
             print_line ''Data successfully written to Delta Lake.''
               (save_overwrite delta_output_path t w))"

text \<open>The optional verification: loading fails when the engine says so or when the location holds no version.\<close>

definition verify_stage :: "'v env \<Rightarrow> 'v world \<Rightarrow> 'v world" where
  "verify_stage env w =
     (let w = print_line (CHR 0x0A # ''Verifying data from Delta Lake: '' @ delta_output_path @ ''...'') w
      in case load_delta env of
           Some e \<Rightarrow> print_line (''Error reading from Delta Lake for verification: '' @ message e) w
         | None \<Rightarrow>
             (case current_version w delta_output_path of
                None \<Rightarrow>
                  print_line (''Error reading from Delta Lake for verification: ''
                                @ message (EngineError ''not a Delta table'')) w
              | Some t \<Rightarrow>
                  print_line ''Delta Lake read verification successful.'' (show_rows 20 t w)))"

text \<open>Section 6: teardown.\<close>

definition teardown :: "'v world \<Rightarrow> 'v world" where
  "teardown w =
     print_line ''Processing complete.'' (stop (print_line ''Stopping Spark Session.'' w))"

text \<open>
  The whole script. The only handlers are the three \<^verbatim>\<open>try\<close> blocks: an error of the
  transformation section (lines 41 to 60) leaves the script as an uncaught exception.
\<close>

definition run :: "'v engine \<Rightarrow> 'v env \<Rightarrow> 'v world \<Rightarrow> exit \<times> 'v world" where
  "run eng env w0 =
     (let w = print_line ''Initializing Spark Session...'' w0;
          w = getOrCreate w;
          w = print_line ''Spark Session initialized.'' w;
          w = print_line (''Reading data from '' @ csv_input_path @ ''...'') w
      in case ingest env w of
           Inl (e, w) \<Rightarrow>
             (SystemExit, stop (print_line (''Error reading CSV: '' @ message e) w))
         | Inr (df, w) \<Rightarrow>
             (let w = print_line ''Applying basic cleaning and transformations...'' w
              in case final_df eng df of
                   Inl e \<Rightarrow> (Uncaught e, w)
                 | Inr t \<Rightarrow>
                     (let w = print_line ''Cleaning and transformation complete.'' w;
                          w = printSchema t w
                      in case show_final env of
                           Some e \<Rightarrow> (Uncaught e, w)
                         | None \<Rightarrow>
                             (Completed,
                              teardown (verify_stage env (write_stage env t (show_rows 5 t w)))))))"

subsection \<open>A reference engine for concrete runs\<close>

text \<open>
  One engine among those the theorems range over, used to run the script on concrete
  tables. Its values are the ones schema inference gives a CSV column: integers, doubles
  (read as reals, with NaN apart), strings and dates. A string coerces to a number when it
  is a plain decimal literal, and to a date when it reads \<^verbatim>\<open>yyyy-MM-dd\<close>.
\<close>

datatype val = IntV int | DoubleV real | NaN | StrV string | DateV nat nat nat

definition digit_of :: "char \<Rightarrow> nat option" where
  "digit_of = map_of
     [(CHR ''0'', 0), (CHR ''1'', 1), (CHR ''2'', 2), (CHR ''3'', 3), (CHR ''4'', 4),
      (CHR ''5'', 5), (CHR ''6'', 6), (CHR ''7'', 7), (CHR ''8'', 8), (CHR ''9'', 9)]"

fun digits_value :: "nat \<Rightarrow> string \<Rightarrow> nat option" where
  "digits_value acc [] = Some acc"
| "digits_value acc (c # cs) =
     (case digit_of c of None \<Rightarrow> None | Some d \<Rightarrow> digits_value (10 * acc + d) cs)"

definition parse_nat :: "string \<Rightarrow> nat option" where
  "parse_nat s = (if s = [] then None else digits_value 0 s)"

definition parse_int :: "string \<Rightarrow> int option" where
  "parse_int s =
     (case s of
        [] \<Rightarrow> None
      | c # cs \<Rightarrow>
          if c = CHR ''-'' then map_option (\<lambda>n. - int n) (parse_nat cs)
          else map_option int (parse_nat s))"

definition parse_decimal :: "string \<Rightarrow> real option" where
  "parse_decimal s =
     (let ip = takeWhile (\<lambda>c. c \<noteq> CHR ''.'') s;
          fp = drop 1 (dropWhile (\<lambda>c. c \<noteq> CHR ''.'') s)
      in if fp = [] then map_option real_of_int (parse_int ip)
         else (case (parse_int ip, parse_nat fp) of
                 (Some i, Some f) \<Rightarrow>
                   Some ((if hd s = CHR ''-'' then real_of_int i - real f / 10 ^ length fp
                          else real_of_int i + real f / 10 ^ length fp))
               | _ \<Rightarrow> None))"

definition days_in_month :: "nat \<Rightarrow> nat \<Rightarrow> nat" where
  "days_in_month y m =
     (if m = 2 then (if y mod 4 = 0 \<and> (y mod 100 \<noteq> 0 \<or> y mod 400 = 0) then 29 else 28)
      else if m \<in> {4, 6, 9, 11} then 30 else 31)"

definition parse_date :: "string \<Rightarrow> val option" where
  "parse_date s =
     (if length s = 10 \<and> s ! 4 = CHR ''-'' \<and> s ! 7 = CHR ''-'' then
        (case (parse_nat (take 4 s), parse_nat (take 2 (drop 5 s)), parse_nat (drop 8 s)) of
           (Some y, Some m, Some d) \<Rightarrow>
             if 1 \<le> m \<and> m \<le> 12 \<and> 1 \<le> d \<and> d \<le> days_in_month y m
             then Some (DateV y m d) else None
         | _ \<Rightarrow> None)
      else None)"

definition to_int32 :: "real \<Rightarrow> int" where
  "to_int32 d =
     (let i = (if 0 \<le> d then \<lfloor>d\<rfloor> else \<lceil>d\<rceil>)
      in max (- (2 ^ 31)) (min (2 ^ 31 - 1) i))"

fun ref_cast :: "dtype \<Rightarrow> val \<Rightarrow> val option" where
  "ref_cast DoubleType (IntV i) = Some (DoubleV (real_of_int i))"
| "ref_cast DoubleType (DoubleV d) = Some (DoubleV d)"
| "ref_cast DoubleType NaN = Some NaN"
| "ref_cast DoubleType (StrV s) = map_option DoubleV (parse_decimal s)"
| "ref_cast DoubleType (DateV y m d) = None"
| "ref_cast IntegerType (IntV i) = Some (IntV ((i + 2 ^ 31) mod 2 ^ 32 - 2 ^ 31))"
| "ref_cast IntegerType (DoubleV d) = Some (IntV (to_int32 d))"
| "ref_cast IntegerType NaN = Some (IntV 0)"
| "ref_cast IntegerType (StrV s) =
     (case parse_int s of
        None \<Rightarrow> None
      | Some i \<Rightarrow> if - (2 ^ 31) \<le> i \<and> i < 2 ^ 31 then Some (IntV i) else None)"
| "ref_cast IntegerType (DateV y m d) = None"
| "ref_cast DateType (DateV y m d) = Some (DateV y m d)"
| "ref_cast DateType (StrV s) = parse_date s"
| "ref_cast DateType v = None"

text \<open>
  The engine accepts a cast to a number from every column type, and a cast to a date from a
  string, date or timestamp column only.
\<close>

fun ref_castable :: "ftype \<Rightarrow> dtype \<Rightarrow> bool" where
  "ref_castable src DoubleType = True"
| "ref_castable src IntegerType = True"
| "ref_castable src DateType = (src = StringT \<or> src = DateT \<or> src = TimestampT)"

definition ref_engine :: "val engine" where
  "ref_engine =
     \<lparr>cast = ref_cast, castable = ref_castable, is_nan = (\<lambda>v. v = NaN), lit = StrV\<rparr>"

text \<open>A row built from the cells of the four transaction columns.\<close>

definition mk_row :: "'v cell \<Rightarrow> 'v cell \<Rightarrow> 'v cell \<Rightarrow> 'v cell \<Rightarrow> 'v row" where
  "mk_row tid amt dt cur =
     (\<lambda>c. if c = ''transaction_id'' then tid
          else if c = ''amount'' then amt
          else if c = ''date'' then dt
          else if c = ''currency'' then cur
          else None)"

text \<open>The column types of the four transaction columns; any further column is a string.\<close>

definition mk_types :: "ftype \<Rightarrow> ftype \<Rightarrow> ftype \<Rightarrow> ftype \<Rightarrow> string \<Rightarrow> ftype" where
  "mk_types tid amt dt cur =
     (\<lambda>c. if c = ''transaction_id'' then tid
          else if c = ''amount'' then amt
          else if c = ''date'' then dt
          else if c = ''currency'' then cur
          else StringT)"

definition txn_columns :: "string list" where
  "txn_columns = [''transaction_id'', ''amount'', ''date'', ''currency'']"

text \<open>Reading a result cell by cell, as \<^verbatim>\<open>df.select(cs).collect()\<close> does.\<close>

definition collect :: "string list \<Rightarrow> error + 'v table \<Rightarrow> error + 'v cell list list" where
  "collect cs res =
     (case res of Inl e \<Rightarrow> Inl e | Inr t \<Rightarrow> Inr (map (\<lambda>r. map r cs) (rows t)))"

text \<open>A fresh process, and the surroundings in which no engine call fails.\<close>

definition fresh_world :: "'v world" where
  "fresh_world = \<lparr>out = [], active = False, stops = 0, store = (\<lambda>_. [])\<rparr>"

definition calm_env :: "'v table \<Rightarrow> 'v env" where
  "calm_env df =
     \<lparr>read_csv = Inr df, show_df = None, show_final = None,
      write_delta = None, load_delta = None\<rparr>"

text \<open>
  Sample inputs. \<open>clean_df\<close> is a file whose columns infer to their intended types: it
  has a repeated transaction id, a missing amount and a missing currency.
  \<open>dirty_df\<close> is a file whose id, amount and date columns stay strings, because some of
  their values are not numbers or dates. \<open>late_df\<close> has a string amount column, an
  absent transaction id and a repeated one. \<open>gaps_df\<close> has a transaction id whose first
  record misses its amount, and one whose only record does. \<open>coded_df\<close> gives currencies
  as numeric codes, so that its currency column infers to integer. \<open>stamped_df\<close> writes
  dates as numbers, so that its date column infers to integer. \<open>repeat_df\<close> has a string
  date column and a repeated transaction id whose second record has an unparsable date.
  \<open>renamed_df\<close> is a file whose header calls the amount column \<^verbatim>\<open>value\<close>.
\<close>

definition clean_df :: "val table" where
  "clean_df =
     \<lparr>columns = txn_columns,
      dtypes = mk_types IntegerT DoubleT DateT StringT,
      rows =
        [mk_row (Some (IntV 1)) (Some (DoubleV (201 / 2))) (Some (DateV 2024 1 15)) (Some (StrV ''USD'')),
         mk_row (Some (IntV 2)) (Some (DoubleV 250)) (Some (DateV 2024 1 16)) None,
         mk_row (Some (IntV 1)) (Some (DoubleV (301 / 4))) (Some (DateV 2024 1 17)) (Some (StrV ''EUR'')),
         mk_row (Some (IntV 3)) None (Some (DateV 2024 1 18)) (Some (StrV ''GBP''))]\<rparr>"

definition dirty_df :: "val table" where
  "dirty_df =
     \<lparr>columns = txn_columns,
      dtypes = mk_types StringT StringT StringT StringT,
      rows =
        [mk_row (Some (StrV ''1'')) (Some (StrV ''12.50'')) (Some (StrV ''2024-01-15'')) (Some (StrV ''USD'')),
         mk_row (Some (StrV ''A-17'')) (Some (StrV ''n/a'')) (Some (StrV ''15/01/2024'')) None,
         mk_row (Some (StrV ''x9'')) (Some (StrV ''19.99'')) (Some (StrV ''2024-01-17'')) (Some (StrV ''EUR''))]\<rparr>"

definition late_df :: "val table" where
  "late_df =
     \<lparr>columns = txn_columns,
      dtypes = mk_types IntegerT StringT DateT StringT,
      rows =
        [mk_row None (Some (StrV ''abc'')) (Some (DateV 2024 3 1)) (Some (StrV ''USD'')),
         mk_row (Some (IntV 7)) (Some (StrV ''5'')) (Some (DateV 2024 3 2)) (Some (StrV ''USD'')),
         mk_row (Some (IntV 7)) (Some (StrV ''xyz'')) (Some (DateV 2024 3 3)) (Some (StrV ''USD''))]\<rparr>"

definition gaps_df :: "val table" where
  "gaps_df =
     \<lparr>columns = txn_columns,
      dtypes = mk_types IntegerT DoubleT DateT StringT,
      rows =
        [mk_row (Some (IntV 1)) None (Some (DateV 2024 2 1)) (Some (StrV ''USD'')),
         mk_row (Some (IntV 1)) (Some (DoubleV (301 / 4))) (Some (DateV 2024 2 2)) (Some (StrV ''EUR'')),
         mk_row (Some (IntV 3)) None (Some (DateV 2024 2 3)) (Some (StrV ''GBP''))]\<rparr>"




definition renamed_df :: "val table" where
  "renamed_df =
     \<lparr>columns = [''transaction_id'', ''value'', ''date'', ''currency''],
      dtypes =
        (\<lambda>c. if c = ''transaction_id'' then IntegerT
              else if c = ''value'' then DoubleT
              else if c = ''date'' then DateT
              else StringT),
      rows =
        [(\<lambda>c. if c = ''transaction_id'' then Some (IntV 1)
              else if c = ''value'' then Some (DoubleV 10)
              else if c = ''date'' then Some (DateV 2024 1 15)
              else if c = ''currency'' then Some (StrV ''USD'')
              else None)]\<rparr>"

section \<open>Properties of the engine operators\<close>

lemma resolve_None: "resolve t cs = None \<longleftrightarrow> set cs \<subseteq> set (columns t)"
proof (cases "filter (\<lambda>c. c \<notin> set (columns t)) cs")
  case Nil
  then show ?thesis by (auto simp: resolve_def filter_empty_conv)
next
  case (Cons c cs')
  have "c \<in> set (filter (\<lambda>c. c \<notin> set (columns t)) cs)"
    by (metis Cons list.set_intros(1))
  then have "c \<in> set cs" and "c \<notin> set (columns t)" by simp_all
  with Cons show ?thesis by (auto simp: resolve_def)
qed

lemma and_then_Inr: "and_then r f = Inr y \<longleftrightarrow> (\<exists>x. r = Inr x \<and> f x = Inr y)"
  by (cases r) (simp_all add: and_then_def)

lemma dropna_Inr:
  "dropna eng cs t = Inr t' \<longleftrightarrow>
     set cs \<subseteq> set (columns t) \<and>
     t' = t\<lparr>rows := filter (\<lambda>r. \<forall>c \<in> set cs. \<not> missing eng (r c)) (rows t)\<rparr>"
  using resolve_None [of t cs] by (auto simp: dropna_def split: option.splits)

lemma analyse_cast_col:
  "analyse eng t (Cast (Col c) ty) = None \<longleftrightarrow>
     c \<in> set (columns t) \<and> castable eng (dtypes t c) ty"
  using resolve_None [of t "[c]"] by (auto split: option.splits)

lemma withColumn_Inr:
  "withColumn eng name e t = Inr t' \<longleftrightarrow>
     analyse eng t e = None \<and>
     t' = \<lparr>columns = (if name \<in> set (columns t) then columns t else columns t @ [name]),
           dtypes = (dtypes t)(name := type_of t e),
           rows = map (\<lambda>r. r(name := eval_col eng e r)) (rows t)\<rparr>"
  by (auto simp: withColumn_def split: option.splits)

lemma fillna_Inr:
  "fillna eng vs t = Inr t' \<longleftrightarrow>
     fst ` set vs \<subseteq> set (columns t) \<and>
     t' = t\<lparr>rows := map (fill_row eng (dtypes t) vs) (rows t)\<rparr>"
  using resolve_None [of t "map fst vs"] by (auto simp: fillna_def split: option.splits)

lemma dropDuplicates_Inr:
  "dropDuplicates cs t = Inr t' \<longleftrightarrow>
     set cs \<subseteq> set (columns t) \<and> t' = t\<lparr>rows := keep_first (\<lambda>r. map r cs) [] (rows t)\<rparr>"
  using resolve_None [of t cs] by (auto simp: dropDuplicates_def split: option.splits)

subsection \<open>Deduplication keeps the first row of every key\<close>

lemma filter_keep_first:
  "filter (\<lambda>x. key x = k) (keep_first key seen rs) =
     (if k \<in> set seen then []
      else case find (\<lambda>x. key x = k) rs of None \<Rightarrow> [] | Some x \<Rightarrow> [x])"
  by (induction rs arbitrary: seen) auto

lemma keep_first_subset: "set (keep_first key seen rs) \<subseteq> set rs"
  by (induction rs arbitrary: seen) auto

lemma keep_first_fresh: "x \<in> set (keep_first key seen rs) \<Longrightarrow> key x \<notin> set seen"
proof (induction rs arbitrary: seen)
  case Nil
  then show ?case by simp
next
  case (Cons r rs)
  show ?case
  proof (cases "key r \<in> set seen")
    case True
    with Cons show ?thesis by simp
  next
    case False
    with Cons.prems have "x = r \<or> x \<in> set (keep_first key (key r # seen) rs)" by simp
    then show ?thesis
    proof
      assume "x = r" with False show ?thesis by simp
    next
      assume "x \<in> set (keep_first key (key r # seen) rs)"
      then have "key x \<notin> set (key r # seen)" by (rule Cons.IH)
      then show ?thesis by simp
    qed
  qed
qed

lemma distinct_keep_first: "distinct (map key (keep_first key seen rs))"
  by (induction rs arbitrary: seen) (auto dest: keep_first_fresh)

lemma keys_keep_first: "key ` set (keep_first key seen rs) = key ` set rs - set seen"
  by (induction rs arbitrary: seen) auto

subsection \<open>The stages of the transformation section\<close>

lemma cleaned_df_Inr:
  "cleaned_df eng df = Inr t \<longleftrightarrow>
     ''transaction_id'' \<in> set (columns df) \<and> ''amount'' \<in> set (columns df) \<and>
     t = df\<lparr>rows := filter (\<lambda>r. \<not> missing eng (r ''transaction_id'') \<and>
                                \<not> missing eng (r ''amount'')) (rows df)\<rparr>"
  by (simp add: cleaned_df_def dropna_Inr)

lemma cast_df_Inr:
  "cast_df eng df = Inr t \<longleftrightarrow>
     (\<exists>c. cleaned_df eng df = Inr c \<and> ''date'' \<in> set (columns df) \<and>
        castable eng (dtypes df ''amount'') DoubleType \<and>
        castable eng (dtypes df ''date'') DateType \<and>
        castable eng (dtypes df ''transaction_id'') IntegerType \<and>
        t = \<lparr>columns = columns df,
             dtypes = (dtypes df)(''amount'' := DoubleT, ''date'' := DateT,
                                  ''transaction_id'' := IntegerT),
             rows = map (\<lambda>r. r(''amount'' := cast_cell eng DoubleType (r ''amount''),
                               ''date'' := cast_cell eng DateType (r ''date''),
                               ''transaction_id'' :=
                                 cast_cell eng IntegerType (r ''transaction_id'')))
                        (rows c)\<rparr>)"
  by (auto simp: cast_df_def and_then_Inr withColumn_Inr analyse_cast_col cleaned_df_Inr o_def
      simp del: analyse.simps)

lemma transformed_df_Inr:
  "transformed_df eng df = Inr t \<longleftrightarrow>
     (\<exists>c. cast_df eng df = Inr c \<and> ''currency'' \<in> set (columns df) \<and>
        t = c\<lparr>rows := map (\<lambda>r. if dtypes df ''currency'' = StringT \<and> r ''currency'' = None
                                 then r(''currency'' := Some (lit eng ''UNKNOWN''))
                                 else r) (rows c)\<rparr>)"
  by (auto simp: transformed_df_def and_then_Inr fillna_Inr cast_df_Inr)

lemma final_df_Inr:
  "final_df eng df = Inr t \<longleftrightarrow>
     (\<exists>c. transformed_df eng df = Inr c \<and>
        t = c\<lparr>rows := keep_first (\<lambda>r. [r ''transaction_id'']) [] (rows c)\<rparr>)"
  by (auto simp: final_df_def and_then_Inr dropDuplicates_Inr transformed_df_Inr
      cast_df_Inr cleaned_df_Inr)

subsection \<open>From the input table to the final table\<close>

lemma find_map_row: "find P (map f xs) = map_option f (find (\<lambda>x. P (f x)) xs)"
  by (induction xs) auto

lemma out_row_cells:
  "out_row eng df r ''transaction_id'' = cast_cell eng IntegerType (r ''transaction_id'')"
  "out_row eng df r ''amount'' = cast_cell eng DoubleType (r ''amount'')"
  "out_row eng df r ''date'' = cast_cell eng DateType (r ''date'')"
  "out_row eng df r ''currency'' =
     (if dtypes df ''currency'' = StringT \<and> r ''currency'' = None
      then Some (lit eng ''UNKNOWN'') else r ''currency'')"
  "c \<notin> set txn_columns \<Longrightarrow> out_row eng df r c = r c"
  by (simp_all add: txn_columns_def)


lemma cleaned_df_rows:
  assumes "final_df eng df = Inr t"
  shows "\<exists>c. cleaned_df eng df = Inr c \<and> rows c = filter (passes eng) (rows df)"
  using assms
  by (auto simp: final_df_Inr transformed_df_Inr cast_df_Inr cleaned_df_Inr)


lemma final_df_rows:
  assumes "final_df eng df = Inr t"
  shows "rows t = keep_first (\<lambda>r. [r ''transaction_id'']) []
                    (map (out_row eng df) (filter (passes eng) (rows df)))"
  using assms
  by (auto simp: final_df_Inr transformed_df_Inr cast_df_Inr cleaned_df_Inr o_def)

lemma final_df_key_group:
  assumes "final_df eng df = Inr t"
  shows "filter (\<lambda>x. x ''transaction_id'' = k) (rows t) =
           (case find (\<lambda>r. cast_cell eng IntegerType (r ''transaction_id'') = k)
                   (filter (passes eng) (rows df)) of
              None \<Rightarrow> [] | Some r \<Rightarrow> [out_row eng df r])"
proof -
  let ?key = "\<lambda>r :: 'a row. [r ''transaction_id'']"
  let ?xs = "filter (passes eng) (rows df)"
  let ?P = "\<lambda>r. cast_cell eng IntegerType (r ''transaction_id'') = k"
  have a: "filter (\<lambda>x. ?key x = [k]) (rows t) =
          (case find (\<lambda>x. ?key x = [k]) (map (out_row eng df) ?xs) of
             None \<Rightarrow> [] | Some x \<Rightarrow> [x])"
    unfolding final_df_rows [OF assms] filter_keep_first by simp
  have b: "find (\<lambda>x. ?key x = [k]) (map (out_row eng df) ?xs) =
               map_option (out_row eng df) (find (\<lambda>x. ?key (out_row eng df x) = [k]) ?xs)"
    by (rule find_map_row)
  have c: "(\<lambda>x. ?key (out_row eng df x) = [k]) = ?P"
    by (rule ext) simp
  have d: "(\<lambda>x. x ''transaction_id'' = k) = (\<lambda>x. ?key x = [k])"
    by (rule ext) simp
  have "filter (\<lambda>x. ?key x = [k]) (rows t) =
          (case map_option (out_row eng df) (find ?P ?xs) of None \<Rightarrow> [] | Some x \<Rightarrow> [x])"
    unfolding a b c ..
  also have "\<dots> = (case find ?P ?xs of None \<Rightarrow> [] | Some r \<Rightarrow> [out_row eng df r])"
    by (cases "find ?P ?xs") (simp_all only: option.map option.case)
  finally show ?thesis unfolding d .
qed

lemma final_df_row_origin:
  assumes "final_df eng df = Inr t" and "r \<in> set (rows t)"
  shows "\<exists>r0 \<in> set (rows df). passes eng r0 \<and> r = out_row eng df r0"
proof -
  from assms(2) have "r \<in> set (map (out_row eng df) (filter (passes eng) (rows df)))"
    using keep_first_subset unfolding final_df_rows [OF assms(1)] by fast
  then show ?thesis by auto
qed

section \<open>Running the script on the sample inputs\<close>

lemmas run_defs = final_df_def transformed_df_def cast_df_def cleaned_df_def and_then_def
  dropna_def withColumn_def fillna_def dropDuplicates_def resolve_def missing_def cast_cell_def
  collect_def ref_engine_def mk_row_def mk_types_def txn_columns_def
  parse_decimal_def parse_int_def parse_nat_def digit_of_def parse_date_def days_in_month_def

subsection \<open>The control flow of the script\<close>

lemmas script_defs = run_def ingest_def write_stage_def verify_stage_def teardown_def
  print_line_def printSchema_def show_rows_def getOrCreate_def stop_def save_overwrite_def
  current_version_def csv_input_path_def delta_output_path_def

lemmas stage_defs = write_stage_def verify_stage_def teardown_def
  print_line_def printSchema_def show_rows_def getOrCreate_def stop_def save_overwrite_def
  current_version_def delta_output_path_def Let_def

text \<open>When ingestion and the transformation section succeed, the script runs to its last line.\<close>

lemma run_completes:
  assumes "read_csv env = Inr df" and "show_df env = None"
    and "final_df eng df = Inr t" and "show_final env = None"
  shows "run eng env w =
           (Completed,
            teardown (verify_stage env (write_stage env t (show_rows 5 t
              (printSchema t (print_line ''Cleaning and transformation complete.''
                (print_line ''Applying basic cleaning and transformations...''
                  (show_rows 5 df (printSchema df (print_line ''Data ingested successfully.''
                    (print_line ''Reading data from mock_transactions.csv...''
                      (print_line ''Spark Session initialized.''
                        (getOrCreate (print_line ''Initializing Spark Session...'' w))))))))))))))"
  using assms by (simp add: run_def ingest_def csv_input_path_def)

text \<open>An error of the transformation section ends the script with the session still live.\<close>

lemma run_uncaught:
  assumes "read_csv env = Inr df" and "show_df env = None" and "final_df eng df = Inl e"
  shows "fst (run eng env w) = Uncaught e \<and> stops (snd (run eng env w)) = stops w \<and>
         active (snd (run eng env w)) \<and> store (snd (run eng env w)) = store w"
  using assms by (simp add: script_defs Let_def)


section \<open>The claims\<close>

text \<open>
  Claim C1, as amended. The null-filter runs before the casts. Every record of the
  null-filtered table has a non-null \<^verbatim>\<open>transaction_id\<close> and \<^verbatim>\<open>amount\<close>; every record
  of the final table comes from an input record whose two values are non-null, its
  \<^verbatim>\<open>transaction_id\<close> being the integer cast and its \<^verbatim>\<open>amount\<close> the double cast of them.
  So a final value is NULL exactly where the original, non-null value does not coerce.
\<close>

theorem C1_output_null_only_by_cast:
  assumes "final_df eng df = Inr t"
  shows "(\<exists>c. cleaned_df eng df = Inr c \<and>
            (\<forall>r \<in> set (rows c). r ''transaction_id'' \<noteq> None \<and> r ''amount'' \<noteq> None)) \<and>
         (\<forall>r \<in> set (rows t).
            \<exists>r0 i a. r0 \<in> set (rows df) \<and>
              r0 ''transaction_id'' = Some i \<and> r0 ''amount'' = Some a \<and>
              r ''transaction_id'' = cast eng IntegerType i \<and>
              r ''amount'' = cast eng DoubleType a)"
proof (intro conjI ballI)
  from cleaned_df_rows [OF assms] obtain c where c: "cleaned_df eng df = Inr c"
    and rows_c: "rows c = filter (passes eng) (rows df)"
    by blast
  have "\<forall>r \<in> set (rows c). r ''transaction_id'' \<noteq> None \<and> r ''amount'' \<noteq> None"
    by (auto simp: rows_c missing_def split: option.splits)
  with c show "\<exists>c. cleaned_df eng df = Inr c \<and>
            (\<forall>r \<in> set (rows c). r ''transaction_id'' \<noteq> None \<and> r ''amount'' \<noteq> None)"
    by blast
next
  fix r assume "r \<in> set (rows t)"
  from final_df_row_origin [OF assms this] obtain r0 where r0: "r0 \<in> set (rows df)"
    and keep: "passes eng r0" and r: "r = out_row eng df r0"
    by blast
  from keep obtain i a where ia: "r0 ''transaction_id'' = Some i" "r0 ''amount'' = Some a"
    by (auto simp: missing_def split: option.splits)
  have "r ''transaction_id'' = cast eng IntegerType i"
    and "r ''amount'' = cast eng DoubleType a"
    unfolding r out_row_cells by (simp_all add: cast_cell_def ia)
  with r0 ia show "\<exists>r0 i a. r0 \<in> set (rows df) \<and>
              r0 ''transaction_id'' = Some i \<and> r0 ''amount'' = Some a \<and>
              r ''transaction_id'' = cast eng IntegerType i \<and>
              r ''amount'' = cast eng DoubleType a"
    by blast
qed

text \<open>
  The claim as stated fails: in \<open>dirty_df\<close> the second record has the id \<^verbatim>\<open>A-17\<close> and the
  amount \<^verbatim>\<open>n/a\<close>, both present; it passes the null-filter, and both casts give NULL.
\<close>

theorem C1_counterexample:
  "collect [''transaction_id'', ''amount''] (final_df ref_engine dirty_df) =
     Inr [[Some (IntV 1), Some (DoubleV (25 / 2))], [None, None]]"
  by (simp add: run_defs dirty_df_def)

theorem C1_output_null_only_by_cast_witness:
  "collect [''transaction_id'', ''amount''] (cleaned_df ref_engine dirty_df) =
     Inr [[Some (StrV ''1''), Some (StrV ''12.50'')],
          [Some (StrV ''A-17''), Some (StrV ''n/a'')],
          [Some (StrV ''x9''), Some (StrV ''19.99'')]] \<and>
   (\<exists>r0 i a. r0 \<in> set (rows dirty_df) \<and>
      r0 ''transaction_id'' = Some i \<and> r0 ''amount'' = Some a \<and>
      (rows (projr (final_df ref_engine dirty_df)) ! 1) ''transaction_id'' =
        cast ref_engine IntegerType i \<and>
      (rows (projr (final_df ref_engine dirty_df)) ! 1) ''amount'' =
        cast ref_engine DoubleType a)"
proof -
  have run: "final_df ref_engine dirty_df = Inr (projr (final_df ref_engine dirty_df))"
    by (simp add: run_defs dirty_df_def)
  have "length (rows (projr (final_df ref_engine dirty_df))) = 2"
    by (simp add: run_defs dirty_df_def)
  then have mem: "rows (projr (final_df ref_engine dirty_df)) ! 1
                    \<in> set (rows (projr (final_df ref_engine dirty_df)))"
    by simp
  have "collect [''transaction_id'', ''amount''] (cleaned_df ref_engine dirty_df) =
     Inr [[Some (StrV ''1''), Some (StrV ''12.50'')],
          [Some (StrV ''A-17''), Some (StrV ''n/a'')],
          [Some (StrV ''x9''), Some (StrV ''19.99'')]]"
    by (simp add: run_defs dirty_df_def)
  with C1_output_null_only_by_cast [OF run] mem show ?thesis by blast
qed

text \<open>
  Claim C2, as amended. In the final table no two records have the same
  \<^verbatim>\<open>transaction_id\<close>. Among the input records that pass the null-filter and have one
  \<^verbatim>\<open>transaction_id\<close> after the integer cast, exactly one is retained, the first in
  processing order, as the casts and the default-fill leave it (\<open>out_row\<close>); an id none of
  whose records passes the filter has no record in the final table.
\<close>

theorem C2_first_passing_record_kept:
  assumes "final_df eng df = Inr t"
  shows "distinct (map (\<lambda>r. r ''transaction_id'') (rows t)) \<and>
         (\<forall>k. filter (\<lambda>r. r ''transaction_id'' = k) (rows t) =
                (case find (\<lambda>r. cast_cell eng IntegerType (r ''transaction_id'') = k)
                        (filter (passes eng) (rows df)) of
                   None \<Rightarrow> [] | Some r \<Rightarrow> [out_row eng df r]))"
proof -
  have "distinct (map (\<lambda>r. [r ''transaction_id'']) (rows t))"
    unfolding final_df_rows [OF assms] by (rule distinct_keep_first)
  then have "distinct (map (\<lambda>r. r ''transaction_id'') (rows t))"
    by (simp add: distinct_map inj_on_def)
  with final_df_key_group [OF assms] show ?thesis by blast
qed

text \<open>
  The claim as stated, about the records of the input table, fails in \<open>gaps_df\<close>: of the two
  records with id 1 the first misses its amount and is dropped by the null-filter, so the
  second one is retained; the only record with id 3 misses its amount, and none is retained.
\<close>

theorem C2_counterexample:
  "collect [''transaction_id'', ''amount''] (Inr gaps_df) =
     Inr [[Some (IntV 1), None],
          [Some (IntV 1), Some (DoubleV (301 / 4))],
          [Some (IntV 3), None]] \<and>
   collect [''transaction_id'', ''amount''] (final_df ref_engine gaps_df) =
     Inr [[Some (IntV 1), Some (DoubleV (301 / 4))]]"
  by (simp add: run_defs gaps_df_def)

theorem C2_first_passing_record_kept_witness:
  "collect [''transaction_id'', ''amount''] (final_df ref_engine clean_df) =
     Inr [[Some (IntV 1), Some (DoubleV (201 / 2))], [Some (IntV 2), Some (DoubleV 250)]] \<and>
   distinct (map (\<lambda>r. r ''transaction_id'') (rows (projr (final_df ref_engine clean_df))))"
proof -
  have run: "final_df ref_engine clean_df = Inr (projr (final_df ref_engine clean_df))"
    by (simp add: run_defs clean_df_def)
  have "collect [''transaction_id'', ''amount''] (final_df ref_engine clean_df) =
     Inr [[Some (IntV 1), Some (DoubleV (201 / 2))], [Some (IntV 2), Some (DoubleV 250)]]"
    by (simp add: run_defs clean_df_def)
  with C2_first_passing_record_kept [OF run] show ?thesis by (intro conjI) (elim conjE, assumption)+
qed







text \<open>
  Claim C5. When reading the input fails (the read itself, or the display of what was read,
  both inside the first \<^verbatim>\<open>try\<close>), the script prints the error, stops the session and
  exits: the run ends in \<open>SystemExit\<close>, the session is stopped once, the output holds no
  line of the transformation, write or verification stages, and the store is untouched.
\<close>

theorem C5_ingestion_failure_exits_early:
  assumes "read_csv env = Inl e \<or> (\<exists>df. read_csv env = Inr df \<and> show_df env = Some e)"
  shows "run eng env w =
           (SystemExit,
            w\<lparr>out := out w @
                  [Line ''Initializing Spark Session...'',
                   Line ''Spark Session initialized.'',
                   Line ''Reading data from mock_transactions.csv...''] @
                  (case read_csv env of
                     Inl _ \<Rightarrow> []
                   | Inr df \<Rightarrow> [Line ''Data ingested successfully.'', Schema (columns df)]) @
                  [Line (''Error reading CSV: '' @ message e)],
               active := False, stops := stops w + 1\<rparr>)"
  using assms by (auto simp: script_defs)

theorem C5_ingestion_failure_exits_early_witness:
  "run ref_engine
     ((calm_env clean_df)\<lparr>read_csv := Inl (EngineError ''Path does not exist: mock_transactions.csv'')\<rparr>)
     fresh_world =
   (SystemExit,
    \<lparr>out = [Line ''Initializing Spark Session...'',
            Line ''Spark Session initialized.'',
            Line ''Reading data from mock_transactions.csv...'',
            Line ''Error reading CSV: Path does not exist: mock_transactions.csv''],
     active = False, stops = 1, store = (\<lambda>_. [])\<rparr>)"
proof -
  let ?env = "(calm_env clean_df)\<lparr>read_csv := Inl (EngineError ''Path does not exist: mock_transactions.csv'')\<rparr>"
  have "read_csv ?env = Inl (EngineError ''Path does not exist: mock_transactions.csv'') \<or>
        (\<exists>df. read_csv ?env = Inr df \<and>
              show_df ?env = Some (EngineError ''Path does not exist: mock_transactions.csv''))"
    by simp
  from C5_ingestion_failure_exits_early [OF this, of ref_engine fresh_world]
  show ?thesis by (simp add: fresh_world_def)
qed

text \<open>
  Claim C6. When the write fails, the error is printed, the verification is attempted, the
  session is stopped and the script completes; the store is unchanged. Whatever the write
  and the verification answer, the run completes and stops the session once.
\<close>

theorem C6_write_failure_is_reported:
  assumes "read_csv env = Inr df" and "show_df env = None"
    and "final_df eng df = Inr t" and "show_final env = None"
    and "write_delta env = Some e"
  shows "fst (run eng env w) = Completed \<and>
         out (snd (run eng env w)) =
           out w @
           [Line ''Initializing Spark Session...'',
            Line ''Spark Session initialized.'',
            Line ''Reading data from mock_transactions.csv...'',
            Line ''Data ingested successfully.'', Schema (columns df), Rows (take 5 (rows df)),
            Line ''Applying basic cleaning and transformations...'',
            Line ''Cleaning and transformation complete.'',
            Schema (columns t), Rows (take 5 (rows t)),
            Line ''Writing processed data to Delta Lake at processed_financial_data_delta...'',
            Line (''Error writing to Delta Lake: '' @ message e),
            Line (CHR 0x0A # ''Verifying data from Delta Lake: processed_financial_data_delta...'')] @
           (case load_delta env of
              Some e' \<Rightarrow> [Line (''Error reading from Delta Lake for verification: '' @ message e')]
            | None \<Rightarrow>
                (case store w ''processed_financial_data_delta'' of
                   [] \<Rightarrow> [Line ''Error reading from Delta Lake for verification: not a Delta table'']
                 | v # _ \<Rightarrow> [Rows (take 20 (rows v)),
                              Line ''Delta Lake read verification successful.''])) @
           [Line ''Stopping Spark Session.'', Line ''Processing complete.''] \<and>
         stops (snd (run eng env w)) = stops w + 1 \<and>
         \<not> active (snd (run eng env w)) \<and>
         store (snd (run eng env w)) = store w \<and>
         (\<forall>wd ld. fst (run eng (env\<lparr>write_delta := wd, load_delta := ld\<rparr>) w) = Completed \<and>
                  stops (snd (run eng (env\<lparr>write_delta := wd, load_delta := ld\<rparr>) w)) = stops w + 1 \<and>
                  \<not> active (snd (run eng (env\<lparr>write_delta := wd, load_delta := ld\<rparr>) w)))"
proof -
  have any: "fst (run eng (env\<lparr>write_delta := wd, load_delta := ld\<rparr>) w) = Completed \<and>
             stops (snd (run eng (env\<lparr>write_delta := wd, load_delta := ld\<rparr>) w)) = stops w + 1 \<and>
             \<not> active (snd (run eng (env\<lparr>write_delta := wd, load_delta := ld\<rparr>) w))" for wd ld
  proof -
    have "read_csv (env\<lparr>write_delta := wd, load_delta := ld\<rparr>) = Inr df"
      "show_df (env\<lparr>write_delta := wd, load_delta := ld\<rparr>) = None"
      "show_final (env\<lparr>write_delta := wd, load_delta := ld\<rparr>) = None"
      using assms by simp_all
    from run_completes [OF this(1,2) assms(3) this(3)] show ?thesis
      by (simp add: stage_defs split: option.splits list.splits)
  qed
  have "fst (run eng env w) = Completed"
    and "stops (snd (run eng env w)) = stops w + 1"
    and "\<not> active (snd (run eng env w))"
    and "store (snd (run eng env w)) = store w"
    using assms(5) by (simp_all add: run_completes [OF assms(1-4)] stage_defs
        split: option.splits list.splits)
  moreover have "out (snd (run eng env w)) =
           out w @
           [Line ''Initializing Spark Session...'',
            Line ''Spark Session initialized.'',
            Line ''Reading data from mock_transactions.csv...'',
            Line ''Data ingested successfully.'', Schema (columns df), Rows (take 5 (rows df)),
            Line ''Applying basic cleaning and transformations...'',
            Line ''Cleaning and transformation complete.'',
            Schema (columns t), Rows (take 5 (rows t)),
            Line ''Writing processed data to Delta Lake at processed_financial_data_delta...'',
            Line (''Error writing to Delta Lake: '' @ message e),
            Line (CHR 0x0A # ''Verifying data from Delta Lake: processed_financial_data_delta...'')] @
           (case load_delta env of
              Some e' \<Rightarrow> [Line (''Error reading from Delta Lake for verification: '' @ message e')]
            | None \<Rightarrow>
                (case store w ''processed_financial_data_delta'' of
                   [] \<Rightarrow> [Line ''Error reading from Delta Lake for verification: not a Delta table'']
                 | v # _ \<Rightarrow> [Rows (take 20 (rows v)),
                              Line ''Delta Lake read verification successful.''])) @
           [Line ''Stopping Spark Session.'', Line ''Processing complete.'']"
    using assms(5) by (simp add: run_completes [OF assms(1-4)] stage_defs
        split: option.splits list.splits)
  ultimately show ?thesis using any by blast
qed

theorem C6_write_failure_is_reported_witness:
  "fst (run ref_engine ((calm_env clean_df)\<lparr>write_delta := Some (EngineError ''Permission denied'')\<rparr>)
          fresh_world) = Completed \<and>
   stops (snd (run ref_engine
                 ((calm_env clean_df)\<lparr>write_delta := Some (EngineError ''Permission denied'')\<rparr>)
                 fresh_world)) = 1 \<and>
   \<not> active (snd (run ref_engine
                 ((calm_env clean_df)\<lparr>write_delta := Some (EngineError ''Permission denied'')\<rparr>)
                 fresh_world)) \<and>
   drop 10 (out (snd (run ref_engine
                 ((calm_env clean_df)\<lparr>write_delta := Some (EngineError ''Permission denied'')\<rparr>)
                 fresh_world))) =
     [Line ''Writing processed data to Delta Lake at processed_financial_data_delta...'',
      Line ''Error writing to Delta Lake: Permission denied'',
      Line (CHR 0x0A # ''Verifying data from Delta Lake: processed_financial_data_delta...''),
      Line ''Error reading from Delta Lake for verification: not a Delta table'',
      Line ''Stopping Spark Session.'', Line ''Processing complete.'']"
proof -
  let ?env = "(calm_env clean_df)\<lparr>write_delta := Some (EngineError ''Permission denied'')\<rparr>"
  have 1: "read_csv ?env = Inr clean_df" and 2: "show_df ?env = None"
    and 4: "show_final ?env = None"
    and 5: "write_delta ?env = Some (EngineError ''Permission denied'')"
    and 6: "load_delta ?env = None"
    by (simp_all add: calm_env_def)
  have 3: "final_df ref_engine clean_df = Inr (projr (final_df ref_engine clean_df))"
    by (simp add: run_defs clean_df_def)
  have 7: "store (fresh_world :: val world) ''processed_financial_data_delta'' = []"
    and 8: "out (fresh_world :: val world) = []" and 9: "stops (fresh_world :: val world) = 0"
    by (simp_all add: fresh_world_def)
  from C6_write_failure_is_reported [OF 1 2 3 4 5, of fresh_world]
  show ?thesis by (simp add: 6 7 8 9)
qed

text \<open>
  Claim C7 fails on the script. The transformation section (lines 41 to 60) has no handler:
  for \<open>renamed_df\<close>, whose header has no \<^verbatim>\<open>amount\<close> column, the null-filter raises an
  analysis error, the script ends with that exception uncaught, and the session has not
  been stopped.
\<close>

theorem C7_session_leak_on_transformation_error:
  "fst (run ref_engine (calm_env renamed_df) fresh_world) = Uncaught (AnalysisException ''amount'') \<and>
   stops (snd (run ref_engine (calm_env renamed_df) fresh_world)) = 0 \<and>
   active (snd (run ref_engine (calm_env renamed_df) fresh_world))"
  by (simp add: script_defs run_defs calm_env_def renamed_df_def fresh_world_def)




text \<open>
  Claim C9. Deduplication puts all NULL transaction ids into one key group: the final table
  has at most one record whose \<^verbatim>\<open>transaction_id\<close> is NULL. In \<open>dirty_df\<close> two ids fail
  the integer cast and one NULL record is left.
\<close>

theorem C9_null_ids_collapse:
  assumes "final_df eng df = Inr t"
  shows "length (filter (\<lambda>r. r ''transaction_id'' = None) (rows t)) \<le> 1"
proof -
  let ?hit = "find (\<lambda>r. cast_cell eng IntegerType (r ''transaction_id'') = None)
                (filter (passes eng) (rows df))"
  have eq: "filter (\<lambda>r. r ''transaction_id'' = None) (rows t) =
              (case ?hit of None \<Rightarrow> [] | Some r \<Rightarrow> [out_row eng df r])"
    by (rule final_df_key_group [OF assms])
  show ?thesis
  proof (cases ?hit)
    case None
    show ?thesis unfolding eq None by simp
  next
    case (Some r)
    show ?thesis unfolding eq Some by simp
  qed
qed

theorem C9_null_ids_collapse_witness:
  "collect [''transaction_id''] (cast_df ref_engine dirty_df) =
     Inr [[Some (IntV 1)], [None], [None]] \<and>
   collect [''transaction_id''] (final_df ref_engine dirty_df) =
     Inr [[Some (IntV 1)], [None]] \<and>
   length (filter (\<lambda>r. r ''transaction_id'' = None)
             (rows (projr (final_df ref_engine dirty_df)))) \<le> 1"
proof -
  have run: "final_df ref_engine dirty_df = Inr (projr (final_df ref_engine dirty_df))"
    by (simp add: run_defs dirty_df_def)
  have "collect [''transaction_id''] (cast_df ref_engine dirty_df) =
          Inr [[Some (IntV 1)], [None], [None]]"
    by (simp add: run_defs dirty_df_def)
  moreover have "collect [''transaction_id''] (final_df ref_engine dirty_df) =
          Inr [[Some (IntV 1)], [None]]"
    by (simp add: run_defs dirty_df_def)
  ultimately show ?thesis using C9_null_ids_collapse [OF run] by blast
qed

text \<open>
  Claim C10, as amended. Whenever the pipeline gives a final table, an input record whose
  \<^verbatim>\<open>transaction_id\<close> is present and whose \<^verbatim>\<open>amount\<close> is present but does not coerce to
  double passes the null-filter, and the final table holds exactly one record with its
  (cast) \<^verbatim>\<open>transaction_id\<close>: the first record of the filtered table with that id. When the
  record is itself that first one, it appears in the final table with a NULL amount.
\<close>

theorem C10_uncoercible_amount_kept_if_first:
  assumes "final_df eng df = Inr t"
    and "r \<in> set (rows df)"
    and "\<not> missing eng (r ''transaction_id'')"
    and "r ''amount'' = Some a" and "\<not> is_nan eng a" and "cast eng DoubleType a = None"
  shows "\<exists>c. cleaned_df eng df = Inr c \<and> r \<in> set (rows c) \<and>
           (\<exists>r' \<in> set (rows t).
              r' ''transaction_id'' = cast_cell eng IntegerType (r ''transaction_id'')) \<and>
           filter (\<lambda>x. x ''transaction_id'' = cast_cell eng IntegerType (r ''transaction_id''))
             (rows t) =
             (case find (\<lambda>x. cast_cell eng IntegerType (x ''transaction_id'') =
                              cast_cell eng IntegerType (r ''transaction_id'')) (rows c) of
                None \<Rightarrow> [] | Some r0 \<Rightarrow> [out_row eng df r0]) \<and>
           (find (\<lambda>x. cast_cell eng IntegerType (x ''transaction_id'') =
                       cast_cell eng IntegerType (r ''transaction_id'')) (rows c) = Some r
            \<longrightarrow> out_row eng df r \<in> set (rows t) \<and> out_row eng df r ''amount'' = None)"
proof -
  let ?k = "cast_cell eng IntegerType (r ''transaction_id'')"
  let ?P = "\<lambda>x. cast_cell eng IntegerType (x ''transaction_id'') = ?k"
  from cleaned_df_rows [OF assms(1)] obtain c where c: "cleaned_df eng df = Inr c"
    and rows_c: "rows c = filter (passes eng) (rows df)" by blast
  from assms(2-5) have in_c: "r \<in> set (rows c)" by (simp add: rows_c missing_def)
  have grp: "filter (\<lambda>x. x ''transaction_id'' = ?k) (rows t) =
               (case find ?P (rows c) of None \<Rightarrow> [] | Some r0 \<Rightarrow> [out_row eng df r0])"
    unfolding rows_c by (rule final_df_key_group [OF assms(1)])
  have hit: "\<exists>x. x \<in> set (rows c) \<and> ?P x"
    using in_c by (intro exI [of _ r] conjI refl)
  have "find ?P (rows c) \<noteq> None"
  proof
    assume "find ?P (rows c) = None"
    then have "\<not> (\<exists>x. x \<in> set (rows c) \<and> ?P x)"
      by (rule find_None_iff [THEN iffD1])
    from this hit show False by (rule notE)
  qed
  then have "\<exists>r0. find ?P (rows c) = Some r0"
    by (rule not_None_eq [THEN iffD1])
  then obtain r0 where r0: "find ?P (rows c) = Some r0"
    by (rule exE)
  from grp r0 have one: "filter (\<lambda>x. x ''transaction_id'' = ?k) (rows t) = [out_row eng df r0]"
    by (simp only: option.case)
  have "out_row eng df r0 \<in> set [out_row eng df r0]" by (rule list.set_intros)
  then have "out_row eng df r0 \<in> set (filter (\<lambda>x. x ''transaction_id'' = ?k) (rows t))"
    by (simp only: one)
  then have in_t: "out_row eng df r0 \<in> set (rows t)"
    and key: "out_row eng df r0 ''transaction_id'' = ?k"
    by (simp_all only: set_filter mem_Collect_eq)
  have some: "\<exists>r' \<in> set (rows t). r' ''transaction_id'' = ?k"
    by (rule bexI [where P = "\<lambda>r'. r' ''transaction_id'' = ?k", OF key in_t])
  have amt: "out_row eng df r ''amount'' = None"
    unfolding out_row_cells using assms(4,6) by (simp add: cast_cell_def)
  have first: "find ?P (rows c) = Some r
                 \<longrightarrow> out_row eng df r \<in> set (rows t) \<and> out_row eng df r ''amount'' = None"
  proof
    assume "find ?P (rows c) = Some r"
    with r0 have "Some r0 = Some r" by (rule trans [OF sym])
    then have "r0 = r" by (rule option.inject [THEN iffD1])
    with in_t amt show "out_row eng df r \<in> set (rows t) \<and> out_row eng df r ''amount'' = None"
      by (simp only: simp_thms)
  qed
  from c in_c some grp first show ?thesis by (intro exI conjI)
qed

text \<open>
  The claim as stated fails twice in \<open>late_df\<close>. The record with amount \<^verbatim>\<open>abc\<close> has no
  \<^verbatim>\<open>transaction_id\<close> and is dropped by the null-filter. The record with amount
  \<^verbatim>\<open>xyz\<close> passes the filter, but an earlier record has the same id 7, so deduplication
  drops it: no record of the final table has a NULL amount.
\<close>

theorem C10_counterexample:
  "ref_cast DoubleType (StrV ''abc'') = None \<and> ref_cast DoubleType (StrV ''xyz'') = None \<and>
   collect [''transaction_id'', ''amount''] (Inr late_df) =
     Inr [[None, Some (StrV ''abc'')],
          [Some (IntV 7), Some (StrV ''5'')],
          [Some (IntV 7), Some (StrV ''xyz'')]] \<and>
   collect [''transaction_id'', ''amount''] (cleaned_df ref_engine late_df) =
     Inr [[Some (IntV 7), Some (StrV ''5'')], [Some (IntV 7), Some (StrV ''xyz'')]] \<and>
   collect [''transaction_id'', ''amount''] (final_df ref_engine late_df) =
     Inr [[Some (IntV 7), Some (DoubleV 5)]]"
  by (simp add: run_defs late_df_def)

theorem C10_uncoercible_amount_kept_if_first_witness:
  "collect txn_columns (final_df ref_engine dirty_df) =
     Inr [[Some (IntV 1), Some (DoubleV (25 / 2)), Some (DateV 2024 1 15), Some (StrV ''USD'')],
          [None, None, None, Some (StrV ''UNKNOWN'')]] \<and>
   out_row ref_engine dirty_df
     (mk_row (Some (StrV ''A-17'')) (Some (StrV ''n/a'')) (Some (StrV ''15/01/2024'')) None)
     \<in> set (rows (projr (final_df ref_engine dirty_df))) \<and>
   out_row ref_engine dirty_df
     (mk_row (Some (StrV ''A-17'')) (Some (StrV ''n/a'')) (Some (StrV ''15/01/2024'')) None)
     ''amount'' = None"
proof -
  let ?r = "mk_row (Some (StrV ''A-17'')) (Some (StrV ''n/a'')) (Some (StrV ''15/01/2024'')) None
              :: val row"
  let ?k = "cast_cell ref_engine IntegerType (?r ''transaction_id'')"
  let ?P = "\<lambda>x. cast_cell ref_engine IntegerType (x ''transaction_id'') = ?k"
  have run: "final_df ref_engine dirty_df = Inr (projr (final_df ref_engine dirty_df))"
    by (simp add: run_defs dirty_df_def)
  have mem: "?r \<in> set (rows dirty_df)"
    by (simp add: dirty_df_def)
  have tid: "\<not> missing ref_engine (?r ''transaction_id'')"
    by (simp add: missing_def ref_engine_def mk_row_def)
  have amt: "?r ''amount'' = Some (StrV ''n/a'')"
    by (simp add: mk_row_def)
  have nan: "\<not> is_nan ref_engine (StrV ''n/a'')"
    by (simp add: ref_engine_def)
  have fails: "cast ref_engine DoubleType (StrV ''n/a'') = None"
    by (simp add: run_defs)
  from C10_uncoercible_amount_kept_if_first [OF run mem tid amt nan fails]
  obtain c where c: "cleaned_df ref_engine dirty_df = Inr c"
    and first: "find ?P (rows c) = Some ?r
                  \<longrightarrow> out_row ref_engine dirty_df ?r \<in> set (rows (projr (final_df ref_engine dirty_df)))
                       \<and> out_row ref_engine dirty_df ?r ''amount'' = None"
    by (elim exE conjE) (rule that)
  from c have "rows c = filter (passes ref_engine) (rows dirty_df)"
    by (simp add: cleaned_df_Inr)
  then have "find ?P (rows c) = Some ?r"
    by (simp add: run_defs dirty_df_def)
  with first have both:
    "out_row ref_engine dirty_df ?r \<in> set (rows (projr (final_df ref_engine dirty_df)))
       \<and> out_row ref_engine dirty_df ?r ''amount'' = None"
    by (rule mp)
  from both have "out_row ref_engine dirty_df ?r \<in> set (rows (projr (final_df ref_engine dirty_df)))"
    by (rule conjunct1)
  moreover from both have "out_row ref_engine dirty_df ?r ''amount'' = None"
    by (rule conjunct2)
  moreover have "collect txn_columns (final_df ref_engine dirty_df) =
     Inr [[Some (IntV 1), Some (DoubleV (25 / 2)), Some (DateV 2024 1 15), Some (StrV ''USD'')],
          [None, None, None, Some (StrV ''UNKNOWN'')]]"
    by (simp add: run_defs dirty_df_def)
  ultimately show ?thesis by (intro conjI)
qed

end
